theory Spec2Isabelle
  imports Complex_Main "HOL-Library.Signed_Division"
begin

section \<open>Thaw front-end library: exchange-rate arithmetic, deploy builders, state queries\<close>

text \<open>
  The code under verification is the TypeScript client library \<^verbatim>\<open>lib/casper\<close>
  (exchange-rate helpers, deploy builders, state queries) and the leverage page that
  projects the exposure of a looped position.

  \<^item> A JavaScript \<^verbatim>\<open>bigint\<close> is an unbounded integer: \<^typ>\<open>int\<close>. Its division
    truncates towards zero and raises \<^verbatim>\<open>RangeError\<close> on a zero divisor.
  \<^item> A JavaScript \<^verbatim>\<open>number\<close> is modelled as \<^typ>\<open>real\<close>. Comparisons of doubles
    are exact; arithmetic on numbers is evaluated below only where every intermediate
    value is a small integer or a dyadic fraction, which IEEE doubles represent and
    combine exactly. \<^verbatim>\<open>NaN\<close> and the infinities are not modelled.
  \<^item> A thrown exception is the left injection of a sum type.
  \<^item> The functions read the module constant \<^verbatim>\<open>LENDING_POOL_HASH\<close>, shipped as the
    empty string and meant to be replaced once the contract is deployed. It is an
    argument of the model; statements about the program as shipped instantiate it with
    \<open>LENDING_POOL_HASH\<close>.
  \<^item> The Casper SDK is not part of the repository: the SDK calls that can throw are
    arguments of the model, and what they return is opaque.
\<close>

subsection \<open>Exceptions and BigInt division\<close>

text \<open>
  \<open>Error msg\<close> is a \<^verbatim>\<open>throw new Error(msg)\<close> of the library itself; \<open>SdkError msg\<close> is
  an exception raised inside a Casper SDK call.
\<close>

datatype error = RangeError | SyntaxError | Error string | SdkError string

text \<open>\<^verbatim>\<open>a / b\<close> on bigints: truncation towards zero, \<^verbatim>\<open>RangeError\<close> when \<open>b = 0\<close>.\<close>

definition bigint_div :: "int \<Rightarrow> int \<Rightarrow> error + int" where
  "bigint_div a b = (if b = 0 then Inl RangeError else Inr (a sdiv b))"

text \<open>Sequencing of computations that may throw.\<close>

definition and_then :: "error + 'a \<Rightarrow> ('a \<Rightarrow> error + 'b) \<Rightarrow> error + 'b" where
  "and_then m f = (case m of Inl e \<Rightarrow> Inl e | Inr x \<Rightarrow> f x)"

subsection \<open>Configuration constants\<close>

text \<open>The lending pool contract hash is shipped empty ("not yet deployed").\<close>

definition LENDING_POOL_HASH :: string where
  "LENDING_POOL_HASH = []"

definition GAS_COSTS_leverageStake :: int where
  "GAS_COSTS_leverageStake = 15000000000"

definition CASPER_CHAIN_NAME :: string where
  "CASPER_CHAIN_NAME = ''casper-test''"

definition EXCHANGE_RATE_PRECISION :: int where
  "EXCHANGE_RATE_PRECISION = 1000000000000000000"

subsection \<open>Exchange-rate helpers\<close>

definition calculateThcsprFromCspr :: "int \<Rightarrow> int \<Rightarrow> int \<Rightarrow> error + int" where
  "calculateThcsprFromCspr csprAmount totalPooled totalSupply =
     (if totalSupply = 0 \<or> totalPooled = 0 then Inr csprAmount
      else bigint_div (csprAmount * totalSupply) totalPooled)"

definition calculateCsprFromThcspr :: "int \<Rightarrow> int \<Rightarrow> int \<Rightarrow> error + int" where
  "calculateCsprFromThcspr thcsprAmount totalPooled totalSupply =
     (if totalSupply = 0 then Inr 0
      else bigint_div (thcsprAmount * totalPooled) totalSupply)"

subsection \<open>The leverage-stake deploy builder\<close>

text \<open>
  After its two guards the builder calls into the SDK, in this order:
  \<^verbatim>\<open>CLValueBuilder.u8(loops)\<close>, \<^verbatim>\<open>DeployUtil.standardPayment(gas + amount)\<close> and
  \<^verbatim>\<open>DeployUtil.makeDeploy\<close>. Each may throw (a \<^verbatim>\<open>loops\<close> that is no integer, an amount
  out of range), which aborts the builder. The SDK values (\<open>'v\<close> a runtime argument,
  \<open>'m\<close> a payment, \<open>'d\<close> a deploy) are opaque. What \<^verbatim>\<open>makeDeploy\<close> receives is kept as
  plain data: the sender, the chain, the contract addressed (the SDK decodes the hex digits
  after the \<^verbatim>\<open>hash-\<close> prefix; the bytes are not modelled), the entry point, the runtime
  arguments and the payment. \<^verbatim>\<open>loops\<close> is a JavaScript number.
\<close>

record ('v, 'm) deploy_request =
  account :: string
  chainName :: string
  contractHash :: string
  entryPoint :: string
  runtimeArgs :: "(string \<times> 'v) list"
  payment :: 'm

record ('v, 'm, 'd) casper_sdk =
  CLValueBuilder_u8 :: "real \<Rightarrow> string + 'v"
  DeployUtil_standardPayment :: "int \<Rightarrow> string + 'm"
  DeployUtil_makeDeploy :: "('v, 'm) deploy_request \<Rightarrow> string + 'd"

definition sdk_call :: "string + 'a \<Rightarrow> error + 'a" where
  "sdk_call r = (case r of Inl msg \<Rightarrow> Inl (SdkError msg) | Inr x \<Rightarrow> Inr x)"

definition buildLeverageStakeDeploy ::
    "('v, 'm, 'd) casper_sdk \<Rightarrow> string \<Rightarrow> string \<Rightarrow> int \<Rightarrow> real \<Rightarrow> error + 'd" where
  "buildLeverageStakeDeploy sdk lendingPoolHash senderPublicKey amount loops =
     (if lendingPoolHash = [] then Inl (Error ''LendingPool contract hash not configured'')
      else if loops < 1 \<or> loops > 4 then Inl (Error ''Loops must be between 1 and 4'')
      else
        and_then (sdk_call (CLValueBuilder_u8 sdk loops)) (\<lambda>loopsArg.
        and_then (sdk_call (DeployUtil_standardPayment sdk (GAS_COSTS_leverageStake + amount)))
          (\<lambda>standardPayment.
        sdk_call (DeployUtil_makeDeploy sdk
          \<lparr> account = senderPublicKey,
            chainName = CASPER_CHAIN_NAME,
            contractHash = lendingPoolHash,
            entryPoint = ''leverage_stake'',
            runtimeArgs = [(''loops'', loopsArg)],
            payment = standardPayment \<rparr>))))"

subsection \<open>State queries\<close>

text \<open>
  \<^verbatim>\<open>queryContractState\<close> and \<^verbatim>\<open>queryDictionary\<close> resolve to \<^verbatim>\<open>null\<close> when the
  RPC call fails, and otherwise to whatever the node returned. The callers convert with
  \<^verbatim>\<open>BigInt(String(x || "0"))\<close>: \<^verbatim>\<open>null\<close> reads as zero, a value whose string is an
  integer literal reads as that integer, and anything else makes \<^verbatim>\<open>BigInt\<close> throw
  \<^verbatim>\<open>SyntaxError\<close>, which the surrounding \<^verbatim>\<open>try/catch\<close> logs and rethrows.
\<close>

datatype query_result = QNull | QInteger int | QOther

fun bigint_or_zero :: "query_result \<Rightarrow> error + int" where
  "bigint_or_zero QNull = Inr 0"
| "bigint_or_zero (QInteger v) = Inr v"
| "bigint_or_zero QOther = Inl SyntaxError"

text \<open>
  \<^verbatim>\<open>Number(q)\<close> of a bigint. The conversion is exact while \<open>\<bar>q\<bar> \<le> 2^53\<close>; the theorems
  below use it on percentages of pools with \<open>0 \<le> total_borrowed \<le> total_deposits\<close> only.
\<close>

definition Number :: "int \<Rightarrow> real" where
  "Number q = of_int q"

record LendingPoolStats =
  totalDeposits :: int
  totalBorrowed :: int
  availableLiquidity :: int
  utilizationRate :: real
  collateralFactor :: real
  liquidationThreshold :: real
  liquidationBonus :: real
  baseRate :: real

definition getLendingPoolStats ::
    "string \<Rightarrow> query_result \<Rightarrow> query_result \<Rightarrow> error + LendingPoolStats" where
  "getLendingPoolStats lendingPoolHash totalDepositsQ totalBorrowedQ =
     (if lendingPoolHash = [] then
        Inr \<lparr> totalDeposits = 500000000000000,
              totalBorrowed = 200000000000000,
              availableLiquidity = 300000000000000,
              utilizationRate = 40,
              collateralFactor = 75,
              liquidationThreshold = 80,
              liquidationBonus = 5,
              baseRate = 5 \<rparr>
      else
        and_then (bigint_or_zero totalDepositsQ) (\<lambda>totalDepositsBigInt.
        and_then (bigint_or_zero totalBorrowedQ) (\<lambda>totalBorrowedBigInt.
        and_then (if totalDepositsBigInt > 0
                  then and_then (bigint_div (totalBorrowedBigInt * 100) totalDepositsBigInt)
                         (\<lambda>q. Inr (Number q))
                  else Inr 0) (\<lambda>utilization.
        Inr \<lparr> totalDeposits = totalDepositsBigInt,
              totalBorrowed = totalBorrowedBigInt,
              availableLiquidity = totalDepositsBigInt - totalBorrowedBigInt,
              utilizationRate = utilization,
              collateralFactor = 75,
              liquidationThreshold = 80,
              liquidationBonus = 5,
              baseRate = 5 \<rparr>))))"

record UserPosition =
  collateral :: int
  borrowed :: int
  healthFactor :: int
  maxBorrow :: int
  lenderDeposit :: int

definition getUserPosition ::
    "string \<Rightarrow> query_result \<Rightarrow> query_result \<Rightarrow> query_result \<Rightarrow> error + UserPosition" where
  "getUserPosition lendingPoolHash collateralQ borrowedQ lenderDepositQ =
     (if lendingPoolHash = [] then
        Inr \<lparr> collateral = 0,
              borrowed = 0,
              healthFactor = EXCHANGE_RATE_PRECISION,
              maxBorrow = 0,
              lenderDeposit = 0 \<rparr>
      else
        and_then (bigint_or_zero collateralQ) (\<lambda>collateralBigInt.
        and_then (bigint_or_zero borrowedQ) (\<lambda>borrowedBigInt.
        and_then (if borrowedBigInt > 0
                  then and_then (bigint_div (collateralBigInt * 80) 100) (\<lambda>collateralValue.
                         bigint_div (collateralValue * EXCHANGE_RATE_PRECISION) borrowedBigInt)
                  else Inr (EXCHANGE_RATE_PRECISION * 10)) (\<lambda>health.
        and_then (bigint_div (collateralBigInt * 75) 100) (\<lambda>quota.
        let maxBorrowRaw = quota - borrowedBigInt in
        and_then (bigint_or_zero lenderDepositQ) (\<lambda>lenderDepositBigInt.
        Inr \<lparr> collateral = collateralBigInt,
              borrowed = borrowedBigInt,
              healthFactor = health,
              maxBorrow = (if maxBorrowRaw > 0 then maxBorrowRaw else 0),
              lenderDeposit = lenderDepositBigInt \<rparr>))))))"

subsection \<open>The leverage page: projected exposure\<close>

text \<open>
  \<^verbatim>\<open>lendingStats?.collateralFactor || 75\<close>: the default applies when the statistics
  have not loaded and when the factor is zero.
\<close>

definition collateralFactor_or_default :: "LendingPoolStats option \<Rightarrow> real" where
  "collateralFactor_or_default lendingStats =
     (case lendingStats of
        None \<Rightarrow> 75
      | Some s \<Rightarrow> if collateralFactor s = 0 then 75 else collateralFactor s)"

text \<open>The \<^verbatim>\<open>for (let i = 1; i < loopCount; i++)\<close> loop, with its two accumulators.\<close>

function calculateExposure_loop :: "real \<Rightarrow> real \<Rightarrow> int \<Rightarrow> real \<Rightarrow> real \<Rightarrow> real" where
  "calculateExposure_loop factor loopCount i current total_acc =
     (if of_int i < loopCount
      then (let current' = current * (factor / 100)
            in calculateExposure_loop factor loopCount (i + 1) current' (total_acc + current'))
      else total_acc)"
  by pat_completeness auto
termination
  by (relation "measure (\<lambda>(factor, loopCount, i, current, total_acc). nat (\<lceil>loopCount\<rceil> - i))")
     (auto simp add: less_ceiling_iff)

declare calculateExposure_loop.simps [simp del]

definition calculateExposure :: "real \<Rightarrow> real \<Rightarrow> real \<Rightarrow> real" where
  "calculateExposure factor initialAmount loopCount =
     calculateExposure_loop factor loopCount 1 initialAmount initialAmount"

definition effectiveLeverage :: "real \<Rightarrow> real \<Rightarrow> real \<Rightarrow> real" where
  "effectiveLeverage factor baseAmount loops =
     (if baseAmount > 0 then calculateExposure factor baseAmount loops / baseAmount
      else loops)"

subsection \<open>The specification's formulas, for comparison\<close>

text \<open>
  These two definitions follow the wording of the protocol specification, not the code.
  \<open>R\<close> is the exchange rate \<open>total_pooled / total_shares\<close> as a real number (\<open>1\<close> at par);
  ledger amounts are integers, so each value is rounded down to the ledger unit.
\<close>

definition spec_max_borrow :: "int \<Rightarrow> real \<Rightarrow> int \<Rightarrow> int" where
  "spec_max_borrow collateral_shares R debt =
     max 0 (\<lfloor>of_int collateral_shares * R * 7500 / 10000\<rfloor> - debt)"

definition spec_utilization_rate :: "int \<Rightarrow> int \<Rightarrow> real" where
  "spec_utilization_rate total_borrowed total_deposits =
     (if total_deposits = 0 then 0 else of_int total_borrowed / of_int total_deposits)"

section \<open>Auxiliary facts\<close>

lemma sdiv_nonneg: "0 \<le> a \<Longrightarrow> 0 < b \<Longrightarrow> (a::int) sdiv b = a div b"
  by (simp add: signed_divide_int_def sgn_if)

lemma bigint_div_nonneg: "0 \<le> a \<Longrightarrow> 0 < b \<Longrightarrow> bigint_div a b = Inr (a div b)"
  by (simp add: bigint_div_def sdiv_nonneg)

lemma and_then_Inr [simp]: "and_then (Inr x) f = f x"
  by (simp add: and_then_def)

lemma and_then_Inl [simp]: "and_then (Inl e) f = Inl e"
  by (simp add: and_then_def)

lemma and_then_eq_Inr:
  "and_then m f = Inr y \<longleftrightarrow> (\<exists>x. m = Inr x \<and> f x = Inr y)"
  by (cases m) simp_all

lemma div_le_of_le_mult: "0 < d \<Longrightarrow> x \<le> A * d \<Longrightarrow> x div d \<le> (A::int)"
  using zdiv_mono1 [of x "A * d" d] by simp

lemma mint_times_pool_le:
  assumes "0 < P"
  shows "(A * S div P) * P \<le> (A * S :: int)"
  using pos_mod_sign [OF assms, of "A * S"] div_mult_mod_eq [of "A * S" P] by linarith

lemma round_trip_le:
  assumes "0 \<le> A" "0 < P" "0 < S"
  shows "(A * S div P) * (P + A) div (S + A * S div P) \<le> (A::int)"
proof -
  define m where "m = A * S div P"
  have m0: "0 \<le> m" using assms by (simp add: m_def pos_imp_zdiv_nonneg_iff)
  have "m * P \<le> A * S" unfolding m_def by (rule mint_times_pool_le [OF assms(2)])
  then have "m * (P + A) \<le> A * (S + m)" by (simp add: algebra_simps)
  moreover have "0 < S + m" using m0 assms(3) by simp
  ultimately show ?thesis unfolding m_def [symmetric] by (rule div_le_of_le_mult [rotated])
qed

lemma round_trip_eq:
  assumes "0 < S" "0 < P" "0 \<le> A" "P dvd A * S"
  shows "(A * S div P) * (P + A) div (S + A * S div P) = (A::int)"
proof -
  define m where "m = A * S div P"
  have m0: "0 \<le> m" using assms by (simp add: m_def pos_imp_zdiv_nonneg_iff)
  have "m * P = A * S" using assms(4) by (simp add: m_def)
  then have "m * (P + A) = A * (S + m)" by (simp add: algebra_simps)
  moreover have "S + m \<noteq> 0" using m0 assms(1) by simp
  ultimately show ?thesis unfolding m_def [symmetric] by simp
qed

subsection \<open>What the position query returns\<close>

lemma getUserPosition_mock:
  "getUserPosition [] cq bq lq =
     Inr \<lparr> collateral = 0, borrowed = 0, healthFactor = EXCHANGE_RATE_PRECISION,
           maxBorrow = 0, lenderDeposit = 0 \<rparr>"
  by (simp add: getUserPosition_def)

lemma getUserPosition_live:
  assumes "h \<noteq> []" "bigint_or_zero cq = Inr c" "bigint_or_zero bq = Inr b"
    "bigint_or_zero lq = Inr l"
  shows "getUserPosition h cq bq lq =
     Inr \<lparr> collateral = c, borrowed = b,
           healthFactor = (if b > 0 then ((c * 80) sdiv 100 * EXCHANGE_RATE_PRECISION) sdiv b
                           else EXCHANGE_RATE_PRECISION * 10),
           maxBorrow = max 0 ((c * 75) sdiv 100 - b), lenderDeposit = l \<rparr>"
  using assms by (simp add: getUserPosition_def bigint_div_def max_def Let_def)

lemma getUserPosition_converts:
  assumes "getUserPosition h cq bq lq = Inr p" "h \<noteq> []"
  shows "\<exists>c b l. bigint_or_zero cq = Inr c \<and> bigint_or_zero bq = Inr b
           \<and> bigint_or_zero lq = Inr l"
  using assms
  by (cases "bigint_or_zero cq"; cases "bigint_or_zero bq"; cases "bigint_or_zero lq")
     (simp_all add: getUserPosition_def bigint_div_def Let_def split: if_splits)

lemma getUserPosition_fields:
  assumes "getUserPosition h cq bq lq = Inr p"
  shows "(h = [] \<and> collateral p = 0 \<and> borrowed p = 0
            \<and> healthFactor p = EXCHANGE_RATE_PRECISION \<and> maxBorrow p = 0)
       \<or> (h \<noteq> [] \<and> healthFactor p =
              (if borrowed p > 0
               then ((collateral p * 80) sdiv 100 * EXCHANGE_RATE_PRECISION) sdiv borrowed p
               else EXCHANGE_RATE_PRECISION * 10)
            \<and> maxBorrow p = max 0 ((collateral p * 75) sdiv 100 - borrowed p))"
proof (cases "h = []")
  case True
  then show ?thesis using assms by (auto simp add: getUserPosition_mock)
next
  case False
  from getUserPosition_converts [OF assms False] obtain c b l
    where "bigint_or_zero cq = Inr c" "bigint_or_zero bq = Inr b" "bigint_or_zero lq = Inr l"
    by blast
  from getUserPosition_live [OF False this] assms False show ?thesis by auto
qed

lemma getLendingPoolStats_utilization:
  assumes "getLendingPoolStats h dq bq = Inr s"
  shows "utilizationRate s =
           (if totalDeposits s > 0
            then of_int ((totalBorrowed s * 100) sdiv totalDeposits s) else 0)"
proof (cases "h = []")
  case True
  then show ?thesis
    using assms by (auto simp add: getLendingPoolStats_def signed_divide_int_def)
next
  case False
  then show ?thesis
    using assms
    by (cases "bigint_or_zero dq"; cases "bigint_or_zero bq")
       (auto simp add: getLendingPoolStats_def bigint_div_def Number_def split: if_splits)
qed

subsection \<open>The specification's borrow limit at par\<close>

lemma spec_max_borrow_at_par:
  "spec_max_borrow c 1 d = max 0 (c * 75 div 100 - d)"
proof -
  have "of_int c * 1 * 7500 / 10000 = (of_int (c * 75) / of_int 100 :: real)"
    by simp
  then show ?thesis
    unfolding spec_max_borrow_def by (simp only: floor_divide_of_int_eq)
qed

section \<open>Share minting and redemption\<close>

text \<open>
  Claim C1, as the code has it. Amounts and pool totals are unsigned in the protocol's data
  model, hence the three sign hypotheses. For every amount and every pool state,
  \<open>calculateThcsprFromCspr\<close> returns the amount itself when \<open>total_shares\<close> is zero
  \<^emph>\<open>or\<close> \<open>total_pooled\<close> is zero, and otherwise the quotient
  \<open>amount * total_shares / total_pooled\<close> rounded down. It never throws there.
\<close>

theorem calculateThcsprFromCspr_value:
  assumes "0 \<le> amount" "0 \<le> total_pooled" "0 \<le> total_shares"
  shows "calculateThcsprFromCspr amount total_pooled total_shares =
           Inr (if total_shares = 0 \<or> total_pooled = 0 then amount
                else amount * total_shares div total_pooled)"
  using assms by (simp add: calculateThcsprFromCspr_def bigint_div_nonneg)

theorem calculateThcsprFromCspr_value_witness:
  "(0::int) \<le> 100 \<and> (0::int) \<le> 1100 \<and> (0::int) \<le> 1000
     \<and> calculateThcsprFromCspr 100 1100 1000 = Inr 90"
  using calculateThcsprFromCspr_value [of 100 1100 1000] by simp

text \<open>
  Claim C1 as the specification words it ("the amount when \<open>total_shares = 0\<close>, otherwise
  the quotient") fails on a pool with shares outstanding and nothing pooled: with
  \<open>total_shares = 1\<close> and \<open>total_pooled = 0\<close> the function returns the amount \<open>5\<close>,
  although \<open>total_shares\<close> is not zero; the quotient of the second branch does not exist
  there (the BigInt division would raise), and the value HOL gives to \<open>5 * 1 div 0\<close> is
  not \<open>5\<close> either.
\<close>

theorem calculateThcsprFromCspr_empty_backing_counterexample:
  "calculateThcsprFromCspr 5 0 1 = Inr 5 \<and> (1::int) \<noteq> 0
     \<and> bigint_div (5 * 1) 0 = Inl RangeError \<and> (5::int) \<noteq> 5 * 1 div 0"
  by (simp add: calculateThcsprFromCspr_def bigint_div_def)

text \<open>
  Claim C2. For every (unsigned) share amount and every pool state with
  \<open>total_shares > 0\<close>, \<open>calculateCsprFromThcspr\<close> returns exactly
  \<open>shares * total_pooled / total_shares\<close> rounded down.
\<close>

theorem calculateCsprFromThcspr_floor:
  assumes "0 \<le> shares" "0 \<le> total_pooled" "0 < total_shares"
  shows "calculateCsprFromThcspr shares total_pooled total_shares =
           Inr (shares * total_pooled div total_shares)"
  using assms by (simp add: calculateCsprFromThcspr_def bigint_div_nonneg)

theorem calculateCsprFromThcspr_floor_witness:
  "(0::int) \<le> 7 \<and> (0::int) \<le> 1199 \<and> (0::int) < 1100
     \<and> calculateCsprFromThcspr 7 1199 1100 = Inr 7"
  using calculateCsprFromThcspr_floor [of 7 1199 1100] by simp

text \<open>
  Outside the unsigned data model the quotient is truncated towards zero rather than
  rounded down: a negative share amount is valued at \<open>0\<close>, not \<open>-1\<close>.
\<close>

lemma calculateCsprFromThcspr_negative_truncates:
  "calculateCsprFromThcspr (- 1) 1 2 = Inr 0 \<and> (- 1 * 1 :: int) div 2 = - 1"
  by (simp add: calculateCsprFromThcspr_def bigint_div_def signed_divide_int_def)

text \<open>
  Claim C3, the round trip. A pool state is a pair of unsigned totals with
  \<open>total_shares = 0 \<Longrightarrow> total_pooled = 0\<close>. Staking \<open>A\<close> mints
  \<open>minted = calculateThcsprFromCspr A P S\<close>; valuing these shares against the updated pool
  \<open>(P + A, S + minted)\<close> gives a principal \<open>due \<le> A\<close>, and \<open>due = A\<close> when \<open>A\<close> divides
  evenly by the exchange rate \<open>P / S\<close>, that is when \<open>P\<close> divides \<open>A * S\<close>. Neither call
  throws.
\<close>

theorem stake_unstake_round_trip:
  assumes "0 \<le> A" "0 \<le> P" "0 \<le> S" "S = 0 \<longrightarrow> P = 0"
  shows "\<exists>minted due. calculateThcsprFromCspr A P S = Inr minted
           \<and> calculateCsprFromThcspr minted (P + A) (S + minted) = Inr due
           \<and> due \<le> A \<and> (P dvd A * S \<longrightarrow> due = A)"
proof -
  consider (empty) "S = 0" "P = 0" | (drained) "0 < S" "P = 0" | (live) "0 < S" "0 < P"
    using assms by force
  then show ?thesis
  proof cases
    case empty
    then show ?thesis
      using assms(1)
      by (cases "A = 0")
         (simp_all add: calculateThcsprFromCspr_def calculateCsprFromThcspr_def
            bigint_div_nonneg)
  next
    case drained
    have "A * A \<le> A * (S + A)" using assms(1) drained(1) by (simp add: algebra_simps)
    then have "A * A div (S + A) \<le> A"
      using assms(1) drained(1) by (intro div_le_of_le_mult) simp_all
    then show ?thesis
      using assms(1) drained
      by (auto simp add: calculateThcsprFromCspr_def calculateCsprFromThcspr_def
            bigint_div_nonneg)
  next
    case live
    let ?m = "A * S div P"
    have m0: "0 \<le> ?m" using assms(1) live by (simp add: pos_imp_zdiv_nonneg_iff)
    have minted: "calculateThcsprFromCspr A P S = Inr ?m"
      using assms(1) live by (simp add: calculateThcsprFromCspr_def bigint_div_nonneg)
    have due: "calculateCsprFromThcspr ?m (P + A) (S + ?m) = Inr (?m * (P + A) div (S + ?m))"
      using assms(1) live m0 by (simp add: calculateCsprFromThcspr_def bigint_div_nonneg)
    show ?thesis
      using minted due round_trip_le [OF assms(1) live(2) live(1)]
        round_trip_eq [OF live(1) live(2) assms(1)] by auto
  qed
qed

text \<open>
  The round trip on the pool \<open>(1199, 1100)\<close>: staking \<open>100\<close> mints \<open>91\<close> shares, worth
  \<open>99\<close> afterwards; staking \<open>1199\<close>, which the rate divides evenly, mints \<open>1100\<close>
  shares and returns all \<open>1199\<close>. On the empty pool \<open>(0, 0)\<close> staking \<open>100\<close> mints
  \<open>100\<close> shares and returns \<open>100\<close>.
\<close>

theorem stake_unstake_round_trip_witness:
  "(0::int) \<le> 100 \<and> (0::int) \<le> 1199 \<and> (0::int) \<le> 1100 \<and> (1100::int) \<noteq> 0
     \<and> calculateThcsprFromCspr 100 1199 1100 = Inr 91
     \<and> calculateCsprFromThcspr 91 (1199 + 100) (1100 + 91) = Inr 99
     \<and> (99::int) \<le> 100
     \<and> (1199::int) dvd 1199 * 1100
     \<and> calculateThcsprFromCspr 1199 1199 1100 = Inr 1100
     \<and> calculateCsprFromThcspr 1100 (1199 + 1199) (1100 + 1100) = Inr 1199
     \<and> calculateThcsprFromCspr 100 0 0 = Inr 100
     \<and> calculateCsprFromThcspr 100 (0 + 100) (0 + 100) = Inr 100"
  using stake_unstake_round_trip [of 100 1199 1100] stake_unstake_round_trip [of 1199 1199 1100]
    stake_unstake_round_trip [of 100 0 0]
  by (simp add: calculateThcsprFromCspr_def calculateCsprFromThcspr_def bigint_div_nonneg)

text \<open>
  The pool invariant is needed: on a pair with pooled tokens but no shares, which is not a
  pool state, staking \<open>5\<close> into \<open>(10, 0)\<close> mints \<open>5\<close> shares that are then valued
  at all \<open>15\<close> pooled tokens.
\<close>

lemma round_trip_outside_pool_invariant:
  "calculateThcsprFromCspr 5 10 0 = Inr 5
     \<and> calculateCsprFromThcspr 5 (10 + 5) (0 + 5) = Inr 15"
  by (simp add: calculateThcsprFromCspr_def calculateCsprFromThcspr_def bigint_div_nonneg)

text \<open>
  Claim C9. Valuing any share amount against a pool with no shares yields \<open>0\<close>: the
  division by \<open>total_shares\<close> is guarded, so the function is total: for every triple of
  arguments it returns a value and never raises.
\<close>

theorem calculateCsprFromThcspr_no_shares:
  "calculateCsprFromThcspr thcsprAmount totalPooled 0 = Inr 0
     \<and> (\<exists>v. calculateCsprFromThcspr thcsprAmount totalPooled totalSupply = Inr v)"
  by (simp add: calculateCsprFromThcspr_def bigint_div_def)

section \<open>The leverage-stake deploy builder\<close>

lemma sdk_call_not_Error: "sdk_call r \<noteq> Inl (Error msg)"
  by (cases r) (simp_all add: sdk_call_def)

lemma and_then_not_Error:
  assumes "m \<noteq> Inl (Error msg)" "\<And>x. f x \<noteq> Inl (Error msg)"
  shows "and_then m f \<noteq> Inl (Error msg)"
  using assms by (cases m) simp_all

text \<open>An exception of the SDK aborts the builder: here the one of \<^verbatim>\<open>CLValueBuilder.u8\<close>.\<close>

lemma buildLeverageStakeDeploy_u8_throws:
  assumes "h \<noteq> []" "1 \<le> loops" "loops \<le> 4" "CLValueBuilder_u8 sdk loops = Inl msg"
  shows "buildLeverageStakeDeploy sdk h pk amount loops = Inl (SdkError msg)"
  using assms by (simp add: buildLeverageStakeDeploy_def sdk_call_def)

text \<open>
  Claim C7. \<open>buildLeverageStakeDeploy\<close> throws for every \<open>loops < 1\<close> and every
  \<open>loops > 4\<close>: the range error once the contract hash is configured, the configuration
  error while it is empty (as shipped). For \<open>1 \<le> loops \<le> 4\<close> it never throws the range
  error, whatever the SDK does; and when the hash is configured and the three SDK calls
  succeed it returns the deploy that \<^verbatim>\<open>makeDeploy\<close> built.
\<close>

theorem buildLeverageStakeDeploy_loops_range:
  "(loops < 1 \<or> loops > 4 \<longrightarrow>
      buildLeverageStakeDeploy sdk h pk amount loops =
        Inl (Error (if h = [] then ''LendingPool contract hash not configured''
                    else ''Loops must be between 1 and 4'')))
   \<and> (1 \<le> loops \<and> loops \<le> 4 \<longrightarrow>
        buildLeverageStakeDeploy sdk h pk amount loops
          \<noteq> Inl (Error ''Loops must be between 1 and 4''))
   \<and> (1 \<le> loops \<and> loops \<le> 4 \<and> h \<noteq> []
        \<and> CLValueBuilder_u8 sdk loops = Inr v
        \<and> DeployUtil_standardPayment sdk (GAS_COSTS_leverageStake + amount) = Inr m
        \<and> DeployUtil_makeDeploy sdk
             \<lparr> account = pk, chainName = CASPER_CHAIN_NAME, contractHash = h,
               entryPoint = ''leverage_stake'', runtimeArgs = [(''loops'', v)],
               payment = m \<rparr> = Inr d
      \<longrightarrow> buildLeverageStakeDeploy sdk h pk amount loops = Inr d)"
proof (intro conjI impI)
  assume "loops < 1 \<or> loops > 4"
  then show "buildLeverageStakeDeploy sdk h pk amount loops =
        Inl (Error (if h = [] then ''LendingPool contract hash not configured''
                    else ''Loops must be between 1 and 4''))"
    by (auto simp add: buildLeverageStakeDeploy_def)
next
  assume inside: "1 \<le> loops \<and> loops \<le> 4"
  show "buildLeverageStakeDeploy sdk h pk amount loops
          \<noteq> Inl (Error ''Loops must be between 1 and 4'')"
  proof (cases "h = []")
    case True
    then show ?thesis by (simp add: buildLeverageStakeDeploy_def)
  next
    case False
    then show ?thesis
      using inside
      by (simp add: buildLeverageStakeDeploy_def and_then_not_Error sdk_call_not_Error)
  qed
next
  assume "1 \<le> loops \<and> loops \<le> 4 \<and> h \<noteq> []
        \<and> CLValueBuilder_u8 sdk loops = Inr v
        \<and> DeployUtil_standardPayment sdk (GAS_COSTS_leverageStake + amount) = Inr m
        \<and> DeployUtil_makeDeploy sdk
             \<lparr> account = pk, chainName = CASPER_CHAIN_NAME, contractHash = h,
               entryPoint = ''leverage_stake'', runtimeArgs = [(''loops'', v)],
               payment = m \<rparr> = Inr d"
  then show "buildLeverageStakeDeploy sdk h pk amount loops = Inr d"
    by (simp add: buildLeverageStakeDeploy_def sdk_call_def)
qed

text \<open>
  The builder on the shipped (empty) hash and on a configured one, with an SDK that accepts
  \<open>3\<close> as a \<^verbatim>\<open>u8\<close> and builds the deploy from the request it is given.
\<close>

theorem buildLeverageStakeDeploy_loops_range_witness:
  "(let sdk = \<lparr> CLValueBuilder_u8 = (\<lambda>x. if x = 3 then Inr (3::nat) else Inl ''not a u8''),
                DeployUtil_standardPayment = (\<lambda>a. Inr a),
                DeployUtil_makeDeploy = (\<lambda>r. Inr r) \<rparr>
    in (0::real) < 1
       \<and> buildLeverageStakeDeploy sdk LENDING_POOL_HASH ''01ab'' 100 0
            = Inl (Error ''LendingPool contract hash not configured'')
       \<and> (5::real) > 4
       \<and> buildLeverageStakeDeploy sdk ''hash-ab'' ''01ab'' 100 5
            = Inl (Error ''Loops must be between 1 and 4'')
       \<and> (1::real) \<le> 3 \<and> (3::real) \<le> 4
       \<and> buildLeverageStakeDeploy sdk LENDING_POOL_HASH ''01ab'' 100 3
            \<noteq> Inl (Error ''Loops must be between 1 and 4'')
       \<and> ''hash-ab'' \<noteq> []
       \<and> buildLeverageStakeDeploy sdk ''hash-ab'' ''01ab'' 100 3
            = Inr \<lparr> account = ''01ab'', chainName = CASPER_CHAIN_NAME,
                    contractHash = ''hash-ab'', entryPoint = ''leverage_stake'',
                    runtimeArgs = [(''loops'', 3)], payment = 15000000100 \<rparr>)"
proof -
  let ?sdk = "\<lparr> CLValueBuilder_u8 = (\<lambda>x::real. if x = 3 then Inr (3::nat) else Inl ''not a u8''),
                DeployUtil_standardPayment = (\<lambda>a::int. Inr a :: string + int),
                DeployUtil_makeDeploy =
                  (\<lambda>r::(nat, int) deploy_request. Inr r :: string + (nat, int) deploy_request) \<rparr>"
  note range = buildLeverageStakeDeploy_loops_range [where sdk = ?sdk and pk = "''01ab''"
      and amount = 100]
  show ?thesis
    using range [where loops = 0 and h = LENDING_POOL_HASH]
      range [where loops = 5 and h = "''hash-ab''"]
      range [where loops = 3 and h = LENDING_POOL_HASH]
      range [where loops = 3 and h = "''hash-ab''" and v = 3 and m = 15000000100]
    by (simp add: Let_def LENDING_POOL_HASH_def GAS_COSTS_leverageStake_def)
qed

section \<open>Lending pool statistics\<close>

text \<open>
  Claim C8, as the code has it. For every lending pool state (unsigned totals with
  \<open>total_borrowed \<le> total_deposits\<close>) the utilization rate that \<open>getLendingPoolStats\<close>
  returns is the whole-number percentage \<open>\<lfloor>100 * total_borrowed / total_deposits\<rfloor>\<close>,
  and \<open>0\<close> when \<open>total_deposits\<close> is \<open>0\<close>. The mock statistics returned while the
  contract hash is empty obey the same formula.
\<close>

theorem utilizationRate_percentage:
  assumes "getLendingPoolStats h dq bq = Inr s"
    "0 \<le> totalBorrowed s" "totalBorrowed s \<le> totalDeposits s"
  shows "utilizationRate s =
           (if totalDeposits s = 0 then 0
            else of_int (totalBorrowed s * 100 div totalDeposits s))
       \<and> utilizationRate s =
           of_int \<lfloor>100 * spec_utilization_rate (totalBorrowed s) (totalDeposits s)\<rfloor>"
proof (cases "totalDeposits s = 0")
  case True
  then show ?thesis
    using getLendingPoolStats_utilization [OF assms(1)]
    by (simp add: spec_utilization_rate_def)
next
  case False
  then have pos: "0 < totalDeposits s" using assms(2,3) by simp
  have "100 * spec_utilization_rate (totalBorrowed s) (totalDeposits s)
          = of_int (totalBorrowed s * 100) / of_int (totalDeposits s)"
    using False by (simp add: spec_utilization_rate_def)
  then have "\<lfloor>100 * spec_utilization_rate (totalBorrowed s) (totalDeposits s)\<rfloor>
          = totalBorrowed s * 100 div totalDeposits s"
    by (simp only: floor_divide_of_int_eq)
  then show ?thesis
    using getLendingPoolStats_utilization [OF assms(1)] pos assms(2)
    by (simp add: sdiv_nonneg)
qed

theorem utilizationRate_percentage_witness:
  "getLendingPoolStats ''hash-ab'' (QInteger 3) (QInteger 1) =
      Inr \<lparr> totalDeposits = 3, totalBorrowed = 1, availableLiquidity = 2,
            utilizationRate = 33, collateralFactor = 75, liquidationThreshold = 80,
            liquidationBonus = 5, baseRate = 5 \<rparr>
   \<and> (0::int) \<le> 1 \<and> (1::int) \<le> 3
   \<and> (33::real) = of_int \<lfloor>100 * spec_utilization_rate 1 3\<rfloor>"
proof -
  have run: "getLendingPoolStats ''hash-ab'' (QInteger 3) (QInteger 1) =
      Inr \<lparr> totalDeposits = 3, totalBorrowed = 1, availableLiquidity = 2,
            utilizationRate = 33, collateralFactor = 75, liquidationThreshold = 80,
            liquidationBonus = 5, baseRate = 5 \<rparr>"
    by (simp add: getLendingPoolStats_def bigint_div_def Number_def signed_divide_int_def)
  from utilizationRate_percentage [OF run] show ?thesis using run by simp
qed

text \<open>
  Claim C8 as the specification words it (the ratio \<open>total_borrowed / total_deposits\<close>)
  fails: with \<open>1\<close> borrowed of \<open>2\<close> deposited the code reports \<open>50\<close>, the ratio is
  \<open>1/2\<close>; with \<open>1\<close> of \<open>3\<close> it reports \<open>33\<close>, which is not even \<open>100\<close> times the
  ratio.
\<close>

theorem utilizationRate_ratio_counterexample:
  "map_sum id utilizationRate (getLendingPoolStats ''hash-ab'' (QInteger 2) (QInteger 1))
      = Inr 50
   \<and> spec_utilization_rate 1 2 = 1 / 2
   \<and> map_sum id utilizationRate (getLendingPoolStats ''hash-ab'' (QInteger 3) (QInteger 1))
      = Inr 33
   \<and> (33::real) \<noteq> 100 * spec_utilization_rate 1 3"
  by (simp add: getLendingPoolStats_def bigint_div_def Number_def signed_divide_int_def
        spec_utilization_rate_def)

section \<open>Account positions\<close>

subsection \<open>The computation behind the configuration guard\<close>

text \<open>
  While \<open>LENDING_POOL_HASH\<close> is empty every call returns the all-zero mock position, so
  the two computations below do not run on the program as shipped. Once a hash is
  configured, and for replies that read as integers, they value the collateral at par:
  the exchange rate is not read. With unsigned collateral and a positive debt the health
  factor is \<open>\<lfloor>\<lfloor>collateral * 80 / 100\<rfloor> * 10^18 / debt\<rfloor>\<close>, and the borrow limit is the
  specification's formula at \<open>R = 1\<close>.
\<close>

lemma healthFactor_behind_guard:
  assumes "h \<noteq> []" "bigint_or_zero cq = Inr c" "bigint_or_zero bq = Inr b"
    "bigint_or_zero lq = Inr l" "0 \<le> c" "0 < b"
  shows "\<exists>p. getUserPosition h cq bq lq = Inr p \<and> collateral p = c \<and> borrowed p = b
           \<and> healthFactor p = (c * 80 div 100) * EXCHANGE_RATE_PRECISION div b"
proof -
  have "0 \<le> c * 80 div 100"
    using assms(5) by (simp add: pos_imp_zdiv_nonneg_iff)
  then have "0 \<le> c * 80 div 100 * EXCHANGE_RATE_PRECISION"
    by (simp add: EXCHANGE_RATE_PRECISION_def)
  then have "((c * 80) sdiv 100 * EXCHANGE_RATE_PRECISION) sdiv b
      = (c * 80 div 100) * EXCHANGE_RATE_PRECISION div b"
    using assms(5,6) by (simp add: sdiv_nonneg)
  then show ?thesis
    using getUserPosition_live [OF assms(1-4)] assms(6) by simp
qed

lemma maxBorrow_behind_guard_at_par:
  assumes "getUserPosition h cq bq lq = Inr p" "0 \<le> collateral p"
  shows "maxBorrow p = spec_max_borrow (collateral p) 1 (borrowed p)"
proof -
  have "maxBorrow p = max 0 ((collateral p * 75) sdiv 100 - borrowed p)"
    using getUserPosition_fields [OF assms(1)] by auto
  then have "maxBorrow p = max 0 (collateral p * 75 div 100 - borrowed p)"
    using assms(2) by (simp add: sdiv_nonneg)
  then show ?thesis by (simp add: spec_max_borrow_at_par)
qed

lemma getUserPosition_no_RangeError:
  "getUserPosition h cq bq lq \<noteq> Inl RangeError"
proof (cases "h = []")
  case True
  then show ?thesis by (simp add: getUserPosition_mock)
next
  case False
  then show ?thesis
    by (cases cq; cases bq; cases lq)
       (simp_all add: getUserPosition_def bigint_div_def Let_def)
qed

subsection \<open>The borrow limit\<close>



subsection \<open>The health factor of a position without debt\<close>

text \<open>
  Claim C10, as the code has it. For every position with \<open>debt = 0\<close> that
  \<open>getUserPosition\<close> returns, the health factor is the sentinel \<open>10 * 10^18\<close> when the
  lending pool contract hash is configured, and \<open>10^18\<close> on the all-zero mock position
  returned while the hash is empty (as shipped). The call never raises a division by
  zero, and with a configured hash and replies that read as integers, the debt being
  \<open>0\<close>, it returns such a position.
\<close>

theorem healthFactor_without_debt:
  "getUserPosition [] cq bq lq =
      Inr \<lparr> collateral = 0, borrowed = 0, healthFactor = EXCHANGE_RATE_PRECISION,
            maxBorrow = 0, lenderDeposit = 0 \<rparr>
   \<and> getUserPosition h cq bq lq \<noteq> Inl RangeError
   \<and> (\<forall>p. getUserPosition h cq bq lq = Inr p \<and> borrowed p = 0 \<longrightarrow>
          healthFactor p =
            (if h = [] then EXCHANGE_RATE_PRECISION else 10 * EXCHANGE_RATE_PRECISION))
   \<and> (h \<noteq> [] \<and> bigint_or_zero cq = Inr c \<and> bigint_or_zero bq = Inr 0
        \<and> bigint_or_zero lq = Inr l \<longrightarrow>
          (\<exists>p. getUserPosition h cq bq lq = Inr p \<and> borrowed p = 0
               \<and> healthFactor p = 10 * EXCHANGE_RATE_PRECISION))"
proof (intro conjI allI impI)
  show "getUserPosition [] cq bq lq =
      Inr \<lparr> collateral = 0, borrowed = 0, healthFactor = EXCHANGE_RATE_PRECISION,
            maxBorrow = 0, lenderDeposit = 0 \<rparr>"
    by (rule getUserPosition_mock)
next
  show "getUserPosition h cq bq lq \<noteq> Inl RangeError"
    by (rule getUserPosition_no_RangeError)
next
  fix p
  assume "getUserPosition h cq bq lq = Inr p \<and> borrowed p = 0"
  then show "healthFactor p =
      (if h = [] then EXCHANGE_RATE_PRECISION else 10 * EXCHANGE_RATE_PRECISION)"
    using getUserPosition_fields [of h cq bq lq p] by auto
next
  assume "h \<noteq> [] \<and> bigint_or_zero cq = Inr c \<and> bigint_or_zero bq = Inr 0
        \<and> bigint_or_zero lq = Inr l"
  then show "\<exists>p. getUserPosition h cq bq lq = Inr p \<and> borrowed p = 0
               \<and> healthFactor p = 10 * EXCHANGE_RATE_PRECISION"
    using getUserPosition_live [of h cq c bq 0 lq l] by simp
qed

text \<open>
  With a configured hash and all three ledger queries failing (\<^verbatim>\<open>null\<close> replies) the
  position is all zero with health factor \<open>10 * 10^18\<close>; on the shipped hash it is the
  mock position with health factor \<open>10^18\<close>.
\<close>

theorem healthFactor_without_debt_witness:
  "''hash-ab'' \<noteq> [] \<and> bigint_or_zero QNull = Inr 0
   \<and> getUserPosition ''hash-ab'' QNull QNull QNull =
      Inr \<lparr> collateral = 0, borrowed = 0, healthFactor = 10000000000000000000,
            maxBorrow = 0, lenderDeposit = 0 \<rparr>
   \<and> getUserPosition LENDING_POOL_HASH QNull QNull QNull =
      Inr \<lparr> collateral = 0, borrowed = 0, healthFactor = 1000000000000000000,
            maxBorrow = 0, lenderDeposit = 0 \<rparr>
   \<and> (10000000000000000000::int) = 10 * EXCHANGE_RATE_PRECISION
   \<and> (1000000000000000000::int) = EXCHANGE_RATE_PRECISION"
proof -
  have live: "getUserPosition ''hash-ab'' QNull QNull QNull =
      Inr \<lparr> collateral = 0, borrowed = 0, healthFactor = 10000000000000000000,
            maxBorrow = 0, lenderDeposit = 0 \<rparr>"
    by (simp add: getUserPosition_def bigint_div_def EXCHANGE_RATE_PRECISION_def)
  have mock: "getUserPosition LENDING_POOL_HASH QNull QNull QNull =
      Inr \<lparr> collateral = 0, borrowed = 0, healthFactor = 1000000000000000000,
            maxBorrow = 0, lenderDeposit = 0 \<rparr>"
    by (simp add: getUserPosition_def LENDING_POOL_HASH_def EXCHANGE_RATE_PRECISION_def)
  from healthFactor_without_debt [where h = "''hash-ab''" and cq = QNull and bq = QNull
      and lq = QNull and c = 0 and l = 0]
    healthFactor_without_debt [where h = LENDING_POOL_HASH and cq = QNull and bq = QNull
      and lq = QNull]
  show ?thesis using live mock by (simp add: EXCHANGE_RATE_PRECISION_def)
qed

text \<open>
  Claim C10 as stated fails on the shipped configuration: \<open>LENDING_POOL_HASH\<close> is empty,
  so \<open>getUserPosition\<close> returns the all-zero mock position, whose debt is \<open>0\<close> and whose
  health factor is \<open>10^18\<close>, not \<open>10 * 10^18\<close>.
\<close>

theorem healthFactor_mock_position_counterexample:
  "getUserPosition LENDING_POOL_HASH QNull QNull QNull =
      Inr \<lparr> collateral = 0, borrowed = 0, healthFactor = 1000000000000000000,
            maxBorrow = 0, lenderDeposit = 0 \<rparr>
   \<and> (1000000000000000000::int) \<noteq> 10 * EXCHANGE_RATE_PRECISION"
  by (simp add: getUserPosition_def LENDING_POOL_HASH_def EXCHANGE_RATE_PRECISION_def)

section \<open>Projected exposure of a leveraged position\<close>

text \<open>
  Claim C6, as the code has it. With initial amount \<open>100\<close> and the default collateral
  factor \<open>75\<close>, \<open>calculateExposure\<close> gives \<open>100\<close> for one loop, \<open>175\<close> for two and
  \<open>231.25\<close> for three: the increments are \<open>75\<close> and \<open>56.25\<close>, nothing is floored, and the
  effective leverage is \<open>2.3125\<close>. Every value involved is a dyadic fraction, so the
  double-precision arithmetic of the page is exact here.
\<close>

theorem calculateExposure_scenario:
  "calculateExposure (collateralFactor_or_default None) 100 1 = 100
   \<and> calculateExposure (collateralFactor_or_default None) 100 2 = 175
   \<and> calculateExposure (collateralFactor_or_default None) 100 3 = 231.25
   \<and> effectiveLeverage (collateralFactor_or_default None) 100 3 = 2.3125"
  by (simp add: effectiveLeverage_def calculateExposure_def collateralFactor_or_default_def
        calculateExposure_loop.simps [of _ _ 1]
        calculateExposure_loop.simps [of _ _ 2] calculateExposure_loop.simps [of _ _ 3] Let_def)

text \<open>
  Claim C6 as stated fails: the third stake adds \<open>56.25\<close>, not \<open>56\<close>, and the total
  exposure is not \<open>231\<close>.
\<close>

theorem calculateExposure_not_floored_counterexample:
  "calculateExposure (collateralFactor_or_default None) 100 3
      - calculateExposure (collateralFactor_or_default None) 100 2 = 56.25
   \<and> calculateExposure (collateralFactor_or_default None) 100 3 \<noteq> 231"
  by (simp add: calculateExposure_def collateralFactor_or_default_def
        calculateExposure_loop.simps [of _ _ 1]
        calculateExposure_loop.simps [of _ _ 2] calculateExposure_loop.simps [of _ _ 3] Let_def)

end
